theory Spec2Isabelle
  imports Main
begin

section \<open>Cache keys (logic/constants.go)\<close>

text \<open>
  \<^verbatim>\<open>UserCacheKey = "user:%d"\<close> is a format string; every use in the repository is
  \<^verbatim>\<open>fmt.Sprintf(UserCacheKey, id)\<close> with \<^verbatim>\<open>id\<close> of type \<^verbatim>\<open>uint\<close>. The verb
  \<^verbatim>\<open>%d\<close> renders an unsigned integer in base ten, most significant digit first, with
  no sign, padding or leading zero. Identifiers are modelled as \<open>nat\<close>: the code does no
  arithmetic on them, so the width of \<^verbatim>\<open>uint\<close> plays no part.
\<close>

definition digit10 :: "nat \<Rightarrow> char" where
  "digit10 d = char_of (48 + d)"

function fmt_d :: "nat \<Rightarrow> string" where
  "fmt_d n = (if n < 10 then [digit10 n] else fmt_d (n div 10) @ [digit10 (n mod 10)])"
  by pat_completeness auto
termination
  by (relation "measure (\<lambda>n. n)") auto

declare fmt_d.simps [simp del]

definition UserCacheKey :: "nat \<Rightarrow> string" where
  "UserCacheKey uid = ''user:'' @ fmt_d uid"

text \<open>\<^verbatim>\<open>UserCacheTTL = 30 * time.Minute\<close>, a \<^verbatim>\<open>time.Duration\<close> in nanoseconds.\<close>

definition UserCacheTTL :: nat where
  "UserCacheTTL = 30 * (60 * 1000000000)"

text \<open>Reading a decimal numeral back, used only to show that \<open>fmt_d\<close> loses nothing.\<close>

definition digit_val :: "char \<Rightarrow> nat" where
  "digit_val c = of_char c - 48"

definition parse_d :: "string \<Rightarrow> nat" where
  "parse_d s = foldl (\<lambda>a c. 10 * a + digit_val c) 0 s"


section \<open>Entities and errors (model/user.go)\<close>

text \<open>
  An instant of \<^verbatim>\<open>time.Time\<close> is a number of ticks since the zero \<^verbatim>\<open>Time\<close>, so
  \<open>0\<close> is the zero value that \<^verbatim>\<open>IsZero\<close> recognises. \<^verbatim>\<open>gorm.DeletedAt\<close> is a
  nullable time: \<open>None\<close> when the row is not soft-deleted.
\<close>

type_synonym time = nat

record User =
  ID :: nat
  CreatedAt :: time
  UpdatedAt :: time
  DeletedAt :: "time option"
  Name :: string
  Email :: string
  Age :: int
  Status :: int

text \<open>\<^verbatim>\<open>&model.User{}\<close>: every field at its zero value.\<close>

definition zero_User :: User where
  "zero_User = \<lparr>ID = 0, CreatedAt = 0, UpdatedAt = 0, DeletedAt = None,
     Name = [], Email = [], Age = 0, Status = 0\<rparr>"

text \<open>
  The values of Go's \<^verbatim>\<open>error\<close> that occur: the two sentinels the code and its
  libraries compare against, the errors built by \<^verbatim>\<open>fmt.Errorf\<close>, and the other
  failures of a database call, of a cache call and of \<^verbatim>\<open>encoding/json\<close>, each with
  its message.
\<close>

datatype error =
    ErrRecordNotFound
  | RedisNil
  | Errorf string
  | StoreError string
  | CacheError string
  | JSONError string

fun Error :: "error \<Rightarrow> string" where
  "Error ErrRecordNotFound = ''record not found''"
| "Error RedisNil = ''redis: nil''"
| "Error (Errorf m) = m"
| "Error (StoreError m) = m"
| "Error (CacheError m) = m"
| "Error (JSONError m) = m"

text \<open>
  The messages of logic/user_write.go are Chinese text; a Go string is its UTF-8 bytes.
  In order: "user name and email must not be empty", "email %s already exists",
  "user ID must not be empty".
\<close>

definition msg_name_email_empty :: string where
  "msg_name_email_empty = map char_of
     [0xE7, 0x94, 0xA8, 0xE6, 0x88, 0xB7, 0xE5, 0xA7, 0x93, 0xE5, 0x90, 0x8D, 0xE5, 0x92,
      0x8C, 0xE9, 0x82, 0xAE, 0xE7, 0xAE, 0xB1, 0xE4, 0xB8, 0x8D, 0xE8, 0x83, 0xBD, 0xE4,
      0xB8, 0xBA, 0xE7, 0xA9, 0xBA :: nat]"

definition msg_email_exists :: "string \<Rightarrow> string" where
  "msg_email_exists e =
     map char_of [0xE9, 0x82, 0xAE, 0xE7, 0xAE, 0xB1, 0x20 :: nat] @ e @
     map char_of [0x20, 0xE5, 0xB7, 0xB2, 0xE5, 0xAD, 0x98, 0xE5, 0x9C, 0xA8 :: nat]"

definition msg_id_empty :: string where
  "msg_id_empty = map char_of
     [0xE7, 0x94, 0xA8, 0xE6, 0x88, 0xB7, 0x49, 0x44, 0xE4, 0xB8, 0x8D, 0xE8, 0x83, 0xBD,
      0xE4, 0xB8, 0xBA, 0xE7, 0xA9, 0xBA :: nat]"


section \<open>Contexts\<close>

text \<open>
  What a \<^verbatim>\<open>context.Context\<close> carries here: the trace it belongs to and the active
  span (context values), the cancellation signal (which \<^verbatim>\<open>Done\<close> channel it is) and
  the deadline. Two contexts with the same fields are the same context.
\<close>

record Context =
  ctx_trace :: nat
  ctx_span :: "nat option"
  ctx_done :: nat
  ctx_deadline :: "time option"


section \<open>The collaborators: backing store and cache\<close>

text \<open>
  \<^verbatim>\<open>database.DB\<close> (GORM over MySQL) and \<^verbatim>\<open>database.RedisClient\<close> are libraries
  outside the repository. They are modelled by what the calls of logic/ rely on: the
  table \<^verbatim>\<open>users\<close> of create_tables.sql as a list of rows with its auto-increment
  counter, its primary key and its unique index on \<^verbatim>\<open>email\<close>; the cache as a finite
  map from keys to a value and its expiry instant. Every call is recorded with the
  context it was given. A call can also fail for a reason outside the model (network,
  timeout, cancelled context): the script \<open>faults\<close> says, call by call, whether the
  next call does; a call that fails so has no effect.
\<close>

datatype column =
  Col_id | Col_created_at | Col_updated_at | Col_deleted_at
  | Col_name | Col_email | Col_age | Col_status

datatype call =
    DB_First_email Context string
  | DB_First_id Context nat nat
  | DB_Create Context User
  | DB_Updates Context "column list" nat User
  | Cache_Get Context string
  | Cache_Set Context string string nat
  | Cache_Del Context string

datatype fault = NoFault | Fault string

text \<open>The closure of the goroutine of \<^verbatim>\<open>GetUserByID\<close>: the variables it captures.\<close>

record task =
  t_ctx :: Context
  t_cacheKey :: string
  t_user :: User

record world =
  rows :: "User list"
  next_id :: nat
  cache :: "string \<rightharpoonup> string \<times> time"
  now :: time
  faults :: "fault list"
  calls :: "call list"
  spawned :: "task list"

definition issue :: "call \<Rightarrow> world \<Rightarrow> fault \<times> world" where
  "issue c w =
     (case faults w of
        [] \<Rightarrow> (NoFault, w\<lparr>calls := calls w @ [c]\<rparr>)
      | f # fs \<Rightarrow> (f, w\<lparr>faults := fs, calls := calls w @ [c]\<rparr>))"

text \<open>GORM's soft-delete scope: every query and update carries \<^verbatim>\<open>deleted_at IS NULL\<close>.\<close>

definition live :: "User \<Rightarrow> bool" where
  "live r = (DeletedAt r = None)"

text \<open>
  \<^verbatim>\<open>First\<close> orders by primary key and takes one row; no row is
  \<^verbatim>\<open>gorm.ErrRecordNotFound\<close>.
\<close>

definition first_of :: "User list \<Rightarrow> error + User" where
  "first_of rs = (case sort_key ID rs of [] \<Rightarrow> Inl ErrRecordNotFound | r # _ \<Rightarrow> Inr r)"

text \<open>
  \<^verbatim>\<open>DB.WithContext(ctx).Where("email = ?", email).First(&existingUser)\<close>. The
  comparison is the column's collation, a parameter \<open>eqc\<close> of the model (the same one
  decides the unique index).
\<close>

definition db_First_email ::
  "(string \<Rightarrow> string \<Rightarrow> bool) \<Rightarrow> Context \<Rightarrow> string \<Rightarrow> world \<Rightarrow> (error + User) \<times> world" where
  "db_First_email eqc ctx email w =
     (case issue (DB_First_email ctx email) w of
        (Fault m, w1) \<Rightarrow> (Inl (StoreError m), w1)
      | (NoFault, w1) \<Rightarrow>
          (first_of (filter (\<lambda>r. live r \<and> eqc (Email r) email) (rows w1)), w1))"

text \<open>
  \<^verbatim>\<open>DB.WithContext(ctx).First(user, id)\<close>. Besides \<^verbatim>\<open>id = ?\<close>, GORM adds the
  primary key of the destination struct to the condition when that is not zero. The
  row found is scanned into the destination, every column of it.
\<close>

definition db_First :: "Context \<Rightarrow> User \<Rightarrow> nat \<Rightarrow> world \<Rightarrow> (error + User) \<times> world" where
  "db_First ctx dest uid w =
     (case issue (DB_First_id ctx (ID dest) uid) w of
        (Fault m, w1) \<Rightarrow> (Inl (StoreError m), w1)
      | (NoFault, w1) \<Rightarrow>
          (first_of (filter (\<lambda>r. live r \<and> ID r = uid \<and> (ID dest = 0 \<or> ID r = ID dest))
             (rows w1)), w1))"

text \<open>
  \<^verbatim>\<open>DB.WithContext(ctx).Create(user)\<close>. GORM fills the zero timestamps with the
  current time and a zero \<^verbatim>\<open>Status\<close> with its declared default 1, in the struct too;
  a zero \<^verbatim>\<open>ID\<close> is assigned by the auto-increment counter and written back. The
  insert is refused when the email or the primary key is already in the table,
  soft-deleted rows included.
\<close>

definition fill_defaults :: "time \<Rightarrow> User \<Rightarrow> User" where
  "fill_defaults t u =
     u\<lparr>CreatedAt := (if CreatedAt u = 0 then t else CreatedAt u),
       UpdatedAt := (if UpdatedAt u = 0 then t else UpdatedAt u),
       Status := (if Status u = 0 then 1 else Status u)\<rparr>"

definition db_Create ::
  "(string \<Rightarrow> string \<Rightarrow> bool) \<Rightarrow> Context \<Rightarrow> User \<Rightarrow> world \<Rightarrow> error option \<times> User \<times> world" where
  "db_Create eqc ctx user w =
     (case issue (DB_Create ctx user) w of
        (Fault m, w1) \<Rightarrow> (Some (StoreError m), fill_defaults (now w1) user, w1)
      | (NoFault, w1) \<Rightarrow>
          (let u1 = fill_defaults (now w1) user;
               new_id = (if ID u1 = 0 then max 1 (next_id w1) else ID u1);
               u2 = u1\<lparr>ID := new_id\<rparr>
           in if list_ex (\<lambda>r. eqc (Email r) (Email u1)) (rows w1) then
                (Some (StoreError ''Duplicate entry for key users.idx_users_email''), u1, w1)
              else if list_ex (\<lambda>r. ID r = new_id) (rows w1) then
                (Some (StoreError ''Duplicate entry for key users.PRIMARY''), u1, w1)
              else
                (None, u2, w1\<lparr>rows := rows w1 @ [u2], next_id := max (next_id w1) (Suc new_id)\<rparr>)))"

text \<open>
  \<^verbatim>\<open>DB.WithContext(ctx).Model(&model.User{}).Select(cols...).Where("id = ?", id).Updates(user)\<close>:
  in every live row with that id, each selected column takes the value of the same
  field of \<^verbatim>\<open>user\<close>, zero values included, except \<^verbatim>\<open>updated_at\<close>, which takes the
  current time. No matching row is no error. The update is refused when it would give
  a row the email of another row.
\<close>

fun set_col :: "time \<Rightarrow> User \<Rightarrow> User \<Rightarrow> column \<Rightarrow> User" where
  "set_col t src r Col_id = r\<lparr>ID := ID src\<rparr>"
| "set_col t src r Col_created_at = r\<lparr>CreatedAt := CreatedAt src\<rparr>"
| "set_col t src r Col_updated_at = r\<lparr>UpdatedAt := t\<rparr>"
| "set_col t src r Col_deleted_at = r\<lparr>DeletedAt := DeletedAt src\<rparr>"
| "set_col t src r Col_name = r\<lparr>Name := Name src\<rparr>"
| "set_col t src r Col_email = r\<lparr>Email := Email src\<rparr>"
| "set_col t src r Col_age = r\<lparr>Age := Age src\<rparr>"
| "set_col t src r Col_status = r\<lparr>Status := Status src\<rparr>"

definition db_Updates ::
  "(string \<Rightarrow> string \<Rightarrow> bool) \<Rightarrow> Context \<Rightarrow> column list \<Rightarrow> nat \<Rightarrow> User \<Rightarrow> world
     \<Rightarrow> error option \<times> world" where
  "db_Updates eqc ctx cols uid user w =
     (case issue (DB_Updates ctx cols uid user) w of
        (Fault m, w1) \<Rightarrow> (Some (StoreError m), w1)
      | (NoFault, w1) \<Rightarrow>
          (let hit = (\<lambda>r. live r \<and> ID r = uid) in
           if Col_email \<in> set cols \<and> list_ex hit (rows w1) \<and>
              list_ex (\<lambda>r. \<not> hit r \<and> eqc (Email r) (Email user)) (rows w1) then
             (Some (StoreError ''Duplicate entry for key users.idx_users_email''), w1)
           else
             (None, w1\<lparr>rows := map (\<lambda>r. if hit r then foldl (set_col (now w1) user) r cols else r)
                                 (rows w1)\<rparr>)))"

text \<open>
  \<^verbatim>\<open>RedisClient.Get(ctx, key).Result()\<close>: the value, or \<^verbatim>\<open>redis.Nil\<close> when the key is
  absent or its entry has expired.
\<close>

definition cache_Get :: "Context \<Rightarrow> string \<Rightarrow> world \<Rightarrow> (error + string) \<times> world" where
  "cache_Get ctx key w =
     (case issue (Cache_Get ctx key) w of
        (Fault m, w1) \<Rightarrow> (Inl (CacheError m), w1)
      | (NoFault, w1) \<Rightarrow>
          (case cache w1 key of
             None \<Rightarrow> (Inl RedisNil, w1)
           | Some (v, expiry) \<Rightarrow> if now w1 < expiry then (Inr v, w1) else (Inl RedisNil, w1)))"

definition cache_Set ::
  "Context \<Rightarrow> string \<Rightarrow> string \<Rightarrow> nat \<Rightarrow> world \<Rightarrow> error option \<times> world" where
  "cache_Set ctx key v ttl w =
     (case issue (Cache_Set ctx key v ttl) w of
        (Fault m, w1) \<Rightarrow> (Some (CacheError m), w1)
      | (NoFault, w1) \<Rightarrow> (None, w1\<lparr>cache := (cache w1)(key \<mapsto> (v, now w1 + ttl))\<rparr>))"

definition cache_Del :: "Context \<Rightarrow> string \<Rightarrow> world \<Rightarrow> error option \<times> world" where
  "cache_Del ctx key w =
     (case issue (Cache_Del ctx key) w of
        (Fault m, w1) \<Rightarrow> (Some (CacheError m), w1)
      | (NoFault, w1) \<Rightarrow> (None, w1\<lparr>cache := (cache w1)(key := None)\<rparr>))"

fun is_cache_call :: "call \<Rightarrow> bool" where
  "is_cache_call (Cache_Get _ _) = True"
| "is_cache_call (Cache_Set _ _ _ _) = True"
| "is_cache_call (Cache_Del _ _) = True"
| "is_cache_call _ = False"


section \<open>Reading a user (logic/user_query.go)\<close>

text \<open>
  \<^verbatim>\<open>json.Unmarshal\<close> and \<^verbatim>\<open>json.Marshal\<close> are parameters. \<^verbatim>\<open>Unmarshal data user\<close>
  returns the struct as it leaves it (a decoding that fails on a field of the wrong
  type has already stored the fields before it) and the error; \<^verbatim>\<open>Marshal\<close> returns
  the bytes and the error.

  The outcome of the cache lookup: whether it is a hit that decodes, and the struct
  \<^verbatim>\<open>user\<close> afterwards. Both branches for a cache error, \<^verbatim>\<open>redis.Nil\<close> or not, are
  empty in the source.
\<close>

definition from_cache ::
  "(string \<Rightarrow> User \<Rightarrow> User \<times> error option) \<Rightarrow> error + string \<Rightarrow> User \<Rightarrow> bool \<times> User" where
  "from_cache Unmarshal got user =
     (case got of
        Inr jsonData \<Rightarrow>
          (case Unmarshal jsonData user of
             (user', None) \<Rightarrow> (True, user')
           | (user', Some err) \<Rightarrow> (False, user'))
      | Inl err \<Rightarrow> (if err \<noteq> RedisNil then (False, user) else (False, user)))"

text \<open>\<^verbatim>\<open>go func() { ... }()\<close>: the closure is handed to the scheduler.\<close>

definition go :: "task \<Rightarrow> world \<Rightarrow> world" where
  "go tk w = w\<lparr>spawned := spawned w @ [tk]\<rparr>"

definition GetUserByID ::
  "(string \<Rightarrow> User \<Rightarrow> User \<times> error option) \<Rightarrow> Context \<Rightarrow> nat \<Rightarrow> world
     \<Rightarrow> (error + User) \<times> world" where
  "GetUserByID Unmarshal ctx uid w =
     (let cacheKey = UserCacheKey uid;
          (got, w1) = cache_Get ctx cacheKey w;
          (hit, user) = from_cache Unmarshal got zero_User
      in if hit then (Inr user, w1)
         else
           (case db_First ctx user uid w1 of
              (Inl err, w2) \<Rightarrow> (Inl err, w2)
            | (Inr user', w2) \<Rightarrow>
                (Inr user', go \<lparr>t_ctx = ctx, t_cacheKey = cacheKey, t_user = user'\<rparr> w2)))"

text \<open>
  The body of the goroutine, run on the world as it is when the scheduler gets to it:
  the marshalling error and the result of \<^verbatim>\<open>Set\<close> are both dropped.
\<close>

definition populate :: "(User \<Rightarrow> string \<times> error option) \<Rightarrow> task \<Rightarrow> world \<Rightarrow> world" where
  "populate Marshal tk w =
     (let (jsonData, _) = Marshal (t_user tk)
      in snd (cache_Set (t_ctx tk) (t_cacheKey tk) jsonData UserCacheTTL w))"


section \<open>Writing a user (logic/user_write.go)\<close>

text \<open>
  Both functions take \<^verbatim>\<open>user\<close> by pointer. \<^verbatim>\<open>CreateUser\<close> leaves it changed (GORM
  writes the new id and the defaults back), so the struct is part of its result.
\<close>

definition CreateUser ::
  "(string \<Rightarrow> string \<Rightarrow> bool) \<Rightarrow> Context \<Rightarrow> User \<Rightarrow> world \<Rightarrow> error option \<times> User \<times> world" where
  "CreateUser eqc ctx user w =
     (if Name user = [] \<or> Email user = [] then (Some (Errorf msg_name_email_empty), user, w)
      else
        (case db_First_email eqc ctx (Email user) w of
           (Inr existingUser, w1) \<Rightarrow> (Some (Errorf (msg_email_exists (Email user))), user, w1)
         | (Inl _, w1) \<Rightarrow>
             (case db_Create eqc ctx user w1 of
                (Some err, user', w2) \<Rightarrow> (Some err, user', w2)
              | (None, user', w2) \<Rightarrow>
                  (let cacheKey = UserCacheKey (ID user');
                       (_, w3) = cache_Del ctx cacheKey w2
                   in (None, user', w3)))))"

definition UpdateUser ::
  "(string \<Rightarrow> string \<Rightarrow> bool) \<Rightarrow> Context \<Rightarrow> User \<Rightarrow> world \<Rightarrow> error option \<times> world" where
  "UpdateUser eqc ctx user w =
     (if ID user = 0 then (Some (Errorf msg_id_empty), w)
      else
        (case db_Updates eqc ctx [Col_name, Col_email, Col_age, Col_status, Col_updated_at]
                (ID user) user w of
           (Some err, w1) \<Rightarrow> (Some err, w1)
         | (None, w1) \<Rightarrow>
             (let cacheKey = UserCacheKey (ID user);
                  (_, w2) = cache_Del ctx cacheKey w1
              in (None, w2))))"


section \<open>The tracing decorator (pkg/tracing.go)\<close>

text \<open>
  The tracer collaborator: spans are numbered as they are started, and every call on
  the tracer or on a span is an event of its log. \<^verbatim>\<open>Tracer.Start\<close> returns the
  context with the new span active; the span's parent is the span of the context given.
\<close>

type_synonym KeyValue = "string \<times> string"

datatype status_code = Unset | Error_code | Ok

datatype event =
    Span_Start nat string "nat option"
  | Span_SetAttributes nat "KeyValue list"
  | Span_RecordError nat error
  | Span_SetStatus nat status_code string
  | Span_End nat

record tracer =
  next_span :: nat
  events :: "event list"

definition emit :: "event \<Rightarrow> tracer \<Rightarrow> tracer" where
  "emit e t = t\<lparr>events := events t @ [e]\<rparr>"

definition Tracer_Start :: "Context \<Rightarrow> string \<Rightarrow> tracer \<Rightarrow> Context \<times> nat \<times> tracer" where
  "Tracer_Start ctx name t =
     (let span = next_span t
      in (ctx\<lparr>ctx_span := Some span\<rparr>, span,
          emit (Span_Start span name (ctx_span ctx)) (t\<lparr>next_span := Suc span\<rparr>)))"

text \<open>
  A call of a Go function ends by returning its result and error (\<open>None\<close> is
  \<^verbatim>\<open>nil\<close>) or by panicking with a value.
\<close>

datatype ('r, 'p) outcome = Return 'r "error option" | Panic 'p

text \<open>
  The block \<^verbatim>\<open>if attrFunc != nil { ... }\<close>: \<open>None\<close> is a nil \<^verbatim>\<open>attrFunc\<close>. The
  attribute function is given the derived context (the source shadows \<^verbatim>\<open>ctx\<close>), and
  it may panic.
\<close>

definition set_attributes ::
  "(Context \<Rightarrow> 'a \<Rightarrow> 'p + KeyValue list) option \<Rightarrow> Context \<Rightarrow> 'a \<Rightarrow> nat \<Rightarrow> tracer
     \<Rightarrow> 'p + tracer" where
  "set_attributes attrFunc ctx arg span t =
     (case attrFunc of
        None \<Rightarrow> Inr t
      | Some g \<Rightarrow>
          (case g ctx arg of
             Inl p \<Rightarrow> Inl p
           | Inr attrs \<Rightarrow>
               Inr (if length attrs > 0 then emit (Span_SetAttributes span attrs) t else t)))"

text \<open>
  The function \<^verbatim>\<open>TraceServiceFunc\<close> returns, applied to \<^verbatim>\<open>(ctx, arg)\<close> and the
  tracer's state. \<^verbatim>\<open>defer span.End()\<close> runs when the body is left, by return or by
  panic: it is the last step on every branch.
\<close>

definition TraceServiceFunc ::
  "string \<Rightarrow> (Context \<Rightarrow> 'a \<Rightarrow> tracer \<Rightarrow> ('r, 'p) outcome \<times> tracer)
     \<Rightarrow> (Context \<Rightarrow> 'a \<Rightarrow> 'p + KeyValue list) option
     \<Rightarrow> Context \<Rightarrow> 'a \<Rightarrow> tracer \<Rightarrow> ('r, 'p) outcome \<times> tracer" where
  "TraceServiceFunc operationName fn attrFunc pctx arg tr =
     (let (ctx, span, t1) = Tracer_Start pctx operationName tr;
          (out, t2) =
            (case set_attributes attrFunc ctx arg span t1 of
               Inl p \<Rightarrow> (Panic p, t1)
             | Inr ta \<Rightarrow>
                 (case fn ctx arg ta of
                    (Panic p, tb) \<Rightarrow> (Panic p, tb)
                  | (Return result None, tb) \<Rightarrow> (Return result None, tb)
                  | (Return result (Some err), tb) \<Rightarrow>
                      (Return result (Some err),
                       emit (Span_SetStatus span Error_code (Error err))
                         (emit (Span_RecordError span err) tb))))
      in (out, emit (Span_End span) t2))"

fun is_start :: "event \<Rightarrow> bool" where
  "is_start (Span_Start _ _ _) = True"
| "is_start _ = False"

fun is_end :: "event \<Rightarrow> bool" where
  "is_end (Span_End _) = True"
| "is_end _ = False"

definition starts :: "tracer \<Rightarrow> nat" where
  "starts t = length (filter is_start (events t))"

definition ends :: "tracer \<Rightarrow> nat" where
  "ends t = length (filter is_end (events t))"


section \<open>Sample data\<close>

text \<open>
  A request context inside span 3 of trace 7, a table holding one user, an empty cache,
  and stand-ins for the two JSON functions: a decoder that accepts the empty object and
  nothing else, and an encoder that always yields it.
\<close>

definition ctx0 :: Context where
  "ctx0 = \<lparr>ctx_trace = 7, ctx_span = Some 3, ctx_done = 1, ctx_deadline = None\<rparr>"

definition alice :: User where
  "alice = \<lparr>ID = 1, CreatedAt = 100, UpdatedAt = 100, DeletedAt = None,
     Name = ''A'', Email = ''a@x.com'', Age = 30, Status = 1\<rparr>"

definition bob :: User where
  "bob = \<lparr>ID = 0, CreatedAt = 0, UpdatedAt = 0, DeletedAt = None,
     Name = ''B'', Email = ''b@x.com'', Age = 25, Status = 0\<rparr>"

definition w0 :: world where
  "w0 = \<lparr>rows = [alice], next_id = 2, cache = Map.empty, now = 500, faults = [],
     calls = [], spawned = []\<rparr>"

definition Unmarshal0 :: "string \<Rightarrow> User \<Rightarrow> User \<times> error option" where
  "Unmarshal0 s u =
     (if s = ''{}'' then (u, None) else (u, Some (JSONError ''invalid character'')))"

text \<open>
  A cache entry that is well-formed JSON of the wrong shape,
  \<^verbatim>\<open>{"id":5,"name":123}\<close>, and \<^verbatim>\<open>json.Unmarshal\<close> on it: the decoder stores 5 in
  \<^verbatim>\<open>ID\<close>, finds a number where the string \<^verbatim>\<open>name\<close> is expected, and returns that
  error with the struct already written. On every other input it is \<open>Unmarshal0\<close>.
\<close>

definition corrupt_entry :: string where
  "corrupt_entry =
     ''{'' @ CHR 0x22 # ''id'' @ CHR 0x22 # '':5,'' @ CHR 0x22 # ''name'' @ CHR 0x22 # '':123}''"

definition Unmarshal1 :: "string \<Rightarrow> User \<Rightarrow> User \<times> error option" where
  "Unmarshal1 s u =
     (if s = corrupt_entry then
        (u\<lparr>ID := 5\<rparr>,
         Some (JSONError ''json: cannot unmarshal number into Go struct field User.name of type string''))
      else Unmarshal0 s u)"

definition Marshal0 :: "User \<Rightarrow> string \<times> error option" where
  "Marshal0 u = (''{}'', None)"

definition tr0 :: tracer where
  "tr0 = \<lparr>next_span = 4, events = []\<rparr>"

text \<open>Three inner functions: one returns, one returns an error, one panics.\<close>

definition fn_ok :: "Context \<Rightarrow> nat \<Rightarrow> tracer \<Rightarrow> (string, string) outcome \<times> tracer" where
  "fn_ok ctx n t = (Return (fmt_d n) None, t)"

definition fn_err :: "Context \<Rightarrow> nat \<Rightarrow> tracer \<Rightarrow> (string, string) outcome \<times> tracer" where
  "fn_err ctx n t = (Return [] (Some (Errorf ''upstream failed'')), t)"

definition fn_panic :: "Context \<Rightarrow> nat \<Rightarrow> tracer \<Rightarrow> (string, string) outcome \<times> tracer" where
  "fn_panic ctx n t = (Panic ''nil pointer dereference'', t)"

definition attrs0 :: "Context \<Rightarrow> nat \<Rightarrow> string + KeyValue list" where
  "attrs0 ctx n = Inr [(''service.name'', ''ServiceC''), (''input.number'', fmt_d n)]"


section \<open>Decimal rendering is injective\<close>

lemma digit_val_digit10: "d < 10 \<Longrightarrow> digit_val (digit10 d) = d"
  by (simp add: digit_val_def digit10_def)

lemma parse_d_snoc: "parse_d (s @ [c]) = 10 * parse_d s + digit_val c"
  by (simp add: parse_d_def)

lemma parse_d_fmt_d: "parse_d (fmt_d n) = n"
proof (induction n rule: fmt_d.induct)
  case (1 n)
  show ?case
  proof (cases "n < 10")
    case True
    then show ?thesis
      by (subst fmt_d.simps) (simp add: parse_d_def digit_val_digit10)
  next
    case False
    with "1" have "parse_d (fmt_d (n div 10)) = n div 10" by simp
    with False show ?thesis
      by (subst fmt_d.simps) (simp add: parse_d_snoc digit_val_digit10)
  qed
qed

lemma fmt_d_inj: "fmt_d a = fmt_d b \<Longrightarrow> a = b"
  by (metis parse_d_fmt_d)

lemma UserCacheKey_1: "UserCacheKey 1 = ''user:1''"
  by code_simp

lemma UserCacheKey_Suc_0: "UserCacheKey (Suc 0) = ''user:1''"
  using UserCacheKey_1 by simp

lemma UserCacheKey_2: "UserCacheKey 2 = ''user:2''"
  by code_simp


text \<open>
  C8. The cache key of an identifier is the text \<open>user:\<close> followed by the decimal
  rendering of that identifier, a function of the identifier and of nothing else, and
  two identifiers have the same key exactly when they are the same identifier.
\<close>

theorem UserCacheKey_injective:
  "UserCacheKey a = ''user:'' @ fmt_d a \<and> (UserCacheKey a = UserCacheKey b) = (a = b)"
  by (auto simp: UserCacheKey_def dest: fmt_d_inj)


section \<open>What each call of a collaborator leaves alone\<close>

lemma issue_frame:
  "issue c w = (f, wa) \<Longrightarrow>
     rows wa = rows w \<and> next_id wa = next_id w \<and> cache wa = cache w \<and> now wa = now w \<and>
     spawned wa = spawned w \<and> calls wa = calls w @ [c]"
  by (auto simp: issue_def split: list.splits)

lemma db_First_email_frame:
  "db_First_email eqc ctx email w = (res, wa) \<Longrightarrow>
     rows wa = rows w \<and> next_id wa = next_id w \<and> cache wa = cache w \<and> now wa = now w \<and>
     spawned wa = spawned w \<and> calls wa = calls w @ [DB_First_email ctx email]"
  by (auto simp: db_First_email_def split: prod.splits fault.splits dest: issue_frame)

lemma db_First_frame:
  "db_First ctx dest uid w = (res, wa) \<Longrightarrow>
     rows wa = rows w \<and> next_id wa = next_id w \<and> cache wa = cache w \<and> now wa = now w \<and>
     spawned wa = spawned w \<and> calls wa = calls w @ [DB_First_id ctx (ID dest) uid]"
  by (auto simp: db_First_def split: prod.splits fault.splits dest: issue_frame)

lemma cache_Get_frame:
  "cache_Get ctx key w = (res, wa) \<Longrightarrow>
     rows wa = rows w \<and> next_id wa = next_id w \<and> cache wa = cache w \<and> now wa = now w \<and>
     spawned wa = spawned w \<and> calls wa = calls w @ [Cache_Get ctx key]"
  by (auto simp: cache_Get_def split: prod.splits fault.splits option.splits if_splits
      dest: issue_frame)

lemma cache_Set_calls:
  "calls (snd (cache_Set ctx key v ttl w)) = calls w @ [Cache_Set ctx key v ttl]"
  by (auto simp: cache_Set_def split: prod.splits fault.splits dest: issue_frame)

lemma cache_Del_calls: "calls (snd (cache_Del ctx key w)) = calls w @ [Cache_Del ctx key]"
  by (auto simp: cache_Del_def split: prod.splits fault.splits dest: issue_frame)

lemma cache_Del_rows: "rows (snd (cache_Del ctx key w)) = rows w"
  by (auto simp: cache_Del_def split: prod.splits fault.splits dest: issue_frame)

lemma cache_Del_absent:
  "fst (cache_Del ctx key w) = None \<Longrightarrow> cache (snd (cache_Del ctx key w)) key = None"
  by (auto simp: cache_Del_def split: prod.splits fault.splits)

lemma db_Create_failed:
  "db_Create eqc ctx user w = (Some e, u, wa) \<Longrightarrow>
     rows wa = rows w \<and> cache wa = cache w \<and> calls wa = calls w @ [DB_Create ctx user]"
  by (auto simp: db_Create_def Let_def split: prod.splits fault.splits if_splits
      dest: issue_frame)

lemma db_Create_duplicate:
  "list_ex (\<lambda>r. eqc (Email r) (Email user)) (rows w) \<Longrightarrow> fst (db_Create eqc ctx user w) \<noteq> None"
  by (auto simp: db_Create_def Let_def fill_defaults_def split: prod.splits fault.splits
      dest: issue_frame)

lemmas eval_defs =
  ctx0_def alice_def bob_def w0_def Unmarshal0_def Marshal0_def
  UserCacheKey_1 UserCacheKey_Suc_0 UserCacheKey_2 UserCacheTTL_def zero_User_def
  issue_def live_def first_of_def db_First_email_def db_First_def fill_defaults_def
  db_Create_def db_Updates_def cache_Get_def cache_Set_def cache_Del_def
  from_cache_def go_def populate_def Let_def


section \<open>The read path\<close>

lemma GetUserByID_fallback:
  assumes "cache_Get ctx (UserCacheKey uid) w = (got, wa)"
      and "from_cache Unmarshal got zero_User = (False, dest)"
  shows "GetUserByID Unmarshal ctx uid w =
           (case db_First ctx dest uid wa of
              (Inl err, wb) \<Rightarrow> (Inl err, wb)
            | (Inr user', wb) \<Rightarrow>
                (Inr user', go \<lparr>t_ctx = ctx, t_cacheKey = UserCacheKey uid, t_user = user'\<rparr> wb))"
  using assms by (simp add: GetUserByID_def Let_def)

text \<open>
  C1, as the claim states it, says that the context of the population task is not the
  request context. On a cache miss followed by a successful fetch of user 1, the one
  task launched holds the request context itself.
\<close>

theorem population_context_counterexample:
  "fst (GetUserByID Unmarshal0 ctx0 1 w0) = Inr alice
   \<and> map t_ctx (spawned (snd (GetUserByID Unmarshal0 ctx0 1 w0))) = [ctx0]"
  by (simp add: GetUserByID_def eval_defs)

text \<open>
  C1, amended. Whenever the cache lookup is not a hit that decodes and the backing
  store then returns the entity, \<open>GetUserByID\<close> returns that entity and launches exactly
  one task, whose context is the request context \<open>ctx\<close> unchanged; run at any later
  state, the task issues one cache \<open>Set\<close> with that same \<open>ctx\<close>, the key of the
  identifier, the encoding of the entity and the 30-minute time to live.
\<close>

theorem GetUserByID_population_uses_request_context:
  assumes "cache_Get ctx (UserCacheKey uid) w = (got, wa)"
      and "from_cache Unmarshal got zero_User = (False, dest)"
      and "db_First ctx dest uid wa = (Inr u, wb)"
  shows "GetUserByID Unmarshal ctx uid w =
           (Inr u, wb\<lparr>spawned := spawned w @
              [\<lparr>t_ctx = ctx, t_cacheKey = UserCacheKey uid, t_user = u\<rparr>]\<rparr>)
       \<and> calls (populate Marshal \<lparr>t_ctx = ctx, t_cacheKey = UserCacheKey uid, t_user = u\<rparr> z) =
           calls z @ [Cache_Set ctx (UserCacheKey uid) (fst (Marshal u)) UserCacheTTL]"
proof -
  have "calls (populate Marshal \<lparr>t_ctx = ctx, t_cacheKey = UserCacheKey uid, t_user = u\<rparr> z) =
           calls z @ [Cache_Set ctx (UserCacheKey uid) (fst (Marshal u)) UserCacheTTL]"
    by (simp add: populate_def cache_Set_calls split: prod.splits)
  with GetUserByID_fallback [OF assms(1,2)] assms(3)
    cache_Get_frame [OF assms(1)] db_First_frame [OF assms(3)]
  show ?thesis by (simp add: go_def)
qed

theorem GetUserByID_population_uses_request_context_witness:
  "GetUserByID Unmarshal0 ctx0 1 w0 =
     (Inr alice,
      w0\<lparr>calls := [Cache_Get ctx0 ''user:1'', DB_First_id ctx0 0 1],
         spawned := [\<lparr>t_ctx = ctx0, t_cacheKey = ''user:1'', t_user = alice\<rparr>]\<rparr>)
   \<and> calls (populate Marshal0 \<lparr>t_ctx = ctx0, t_cacheKey = ''user:1'', t_user = alice\<rparr> w0) =
       [Cache_Set ctx0 ''user:1'' ''{}'' 1800000000000]"
proof -
  let ?wa = "w0\<lparr>calls := [Cache_Get ctx0 ''user:1'']\<rparr>"
  let ?wb = "w0\<lparr>calls := [Cache_Get ctx0 ''user:1'', DB_First_id ctx0 0 1]\<rparr>"
  have h1: "cache_Get ctx0 (UserCacheKey 1) w0 = (Inl RedisNil, ?wa)"
    by (simp add: eval_defs)
  have h2: "from_cache Unmarshal0 (Inl RedisNil) zero_User = (False, zero_User)"
    by (simp add: from_cache_def)
  have h3: "db_First ctx0 zero_User 1 ?wa = (Inr alice, ?wb)"
    by (simp add: eval_defs)
  from GetUserByID_population_uses_request_context [OF h1 h2 h3, of Marshal0 w0]
  show ?thesis by (simp add: eval_defs)
qed

text \<open>
  C3. The claim is that bytes in the cache that fail to decode never turn into a
  failed read: \<open>GetUserByID\<close> fetches the entity of the identifier asked for from the
  backing store and returns that outcome. The code falls back, but with the struct the
  failed decoding has written into as the destination of \<^verbatim>\<open>First(user, id)\<close>, and the
  identifier left there joins the condition of the query. With user 1 in the table and
  the entry \<open>corrupt_entry\<close> under \<open>user:1\<close>, the read of user 1 issues the query for
  id 1 with destination id 5 and returns \<^verbatim>\<open>gorm.ErrRecordNotFound\<close>, while the same
  query with a fresh destination returns the user.
\<close>

theorem GetUserByID_corrupt_entry_fails_read:
  "fst (GetUserByID Unmarshal1 ctx0 1 (w0\<lparr>cache := [''user:1'' \<mapsto> (corrupt_entry, 900)]\<rparr>)) =
     Inl ErrRecordNotFound
   \<and> calls (snd (GetUserByID Unmarshal1 ctx0 1
        (w0\<lparr>cache := [''user:1'' \<mapsto> (corrupt_entry, 900)]\<rparr>))) =
     [Cache_Get ctx0 ''user:1'', DB_First_id ctx0 5 1]
   \<and> fst (db_First ctx0 zero_User 1
        (w0\<lparr>cache := [''user:1'' \<mapsto> (corrupt_entry, 900)],
            calls := [Cache_Get ctx0 ''user:1'']\<rparr>)) =
     Inr alice"
proof -
  let ?w = "w0\<lparr>cache := [''user:1'' \<mapsto> (corrupt_entry, 900)]\<rparr>"
  let ?wa = "w0\<lparr>cache := [''user:1'' \<mapsto> (corrupt_entry, 900)],
                calls := [Cache_Get ctx0 ''user:1'']\<rparr>"
  let ?wb = "w0\<lparr>cache := [''user:1'' \<mapsto> (corrupt_entry, 900)],
                calls := [Cache_Get ctx0 ''user:1'', DB_First_id ctx0 5 1]\<rparr>"
  have get: "cache_Get ctx0 (UserCacheKey 1) ?w = (Inr corrupt_entry, ?wa)"
    by (simp add: eval_defs)
  have dec: "from_cache Unmarshal1 (Inr corrupt_entry) zero_User = (False, zero_User\<lparr>ID := 5\<rparr>)"
    by (simp add: from_cache_def Unmarshal1_def)
  have db: "db_First ctx0 (zero_User\<lparr>ID := 5\<rparr>) 1 ?wa = (Inl ErrRecordNotFound, ?wb)"
    by (simp add: eval_defs)
  have read: "GetUserByID Unmarshal1 ctx0 1 ?w = (Inl ErrRecordNotFound, ?wb)"
    using GetUserByID_fallback [OF get dec] db by simp
  have fresh: "fst (db_First ctx0 zero_User 1 ?wa) = Inr alice"
    by (simp add: eval_defs)
  from read fresh show ?thesis by (simp add: w0_def)
qed

text \<open>
  C6. When the cache lookup is not a hit that decodes and the backing store answers
  that there is no such record, \<open>GetUserByID\<close> returns that error; it launches no
  population task, the cache is as it was, and the only calls issued are the cache
  \<open>Get\<close> and the query: no cache \<open>Set\<close>.
\<close>

theorem GetUserByID_not_found:
  assumes "cache_Get ctx (UserCacheKey uid) w = (got, wa)"
      and "from_cache Unmarshal got zero_User = (False, dest)"
      and "db_First ctx dest uid wa = (Inl ErrRecordNotFound, wb)"
  shows "GetUserByID Unmarshal ctx uid w = (Inl ErrRecordNotFound, wb)
       \<and> spawned wb = spawned w
       \<and> cache wb = cache w
       \<and> calls wb = calls w @ [Cache_Get ctx (UserCacheKey uid), DB_First_id ctx (ID dest) uid]"
  using GetUserByID_fallback [OF assms(1,2)] assms(3)
    cache_Get_frame [OF assms(1)] db_First_frame [OF assms(3)]
  by simp

theorem GetUserByID_not_found_witness:
  "GetUserByID Unmarshal0 ctx0 2 w0 =
     (Inl ErrRecordNotFound, w0\<lparr>calls := [Cache_Get ctx0 ''user:2'', DB_First_id ctx0 0 2]\<rparr>)
   \<and> spawned (snd (GetUserByID Unmarshal0 ctx0 2 w0)) = []
   \<and> cache (snd (GetUserByID Unmarshal0 ctx0 2 w0)) = Map.empty"
proof -
  let ?wa = "w0\<lparr>calls := [Cache_Get ctx0 ''user:2'']\<rparr>"
  let ?wb = "w0\<lparr>calls := [Cache_Get ctx0 ''user:2'', DB_First_id ctx0 0 2]\<rparr>"
  have h1: "cache_Get ctx0 (UserCacheKey 2) w0 = (Inl RedisNil, ?wa)"
    by (simp add: eval_defs)
  have h2: "from_cache Unmarshal0 (Inl RedisNil) zero_User = (False, zero_User)"
    by (simp add: from_cache_def)
  have h3: "db_First ctx0 zero_User 2 ?wa = (Inl ErrRecordNotFound, ?wb)"
    by (simp add: eval_defs)
  from GetUserByID_not_found [OF h1 h2 h3]
  show ?thesis by (simp add: w0_def)
qed



section \<open>The write path\<close>

text \<open>
  C2. When the insert of \<open>CreateUser\<close>, or the update of \<open>UpdateUser\<close>, succeeds at
  the backing store, the function returns no error and its last step before returning
  is the deletion of the key of the entity's identifier (for \<open>CreateUser\<close> the
  identifier the store has just assigned). The result of that deletion is not looked at:
  the equations hold whatever the deletion returns. The deletion itself is one
  \<open>Del\<close> call on the cache, it leaves the table alone, and when it succeeds the key
  is absent from the cache.
\<close>

theorem write_invalidates_cache:
  "(Name user \<noteq> [] \<and> Email user \<noteq> [] \<and>
      db_First_email eqc ctx (Email user) w = (Inl e, wa) \<and>
      db_Create eqc ctx user wa = (None, created, wb)
    \<longrightarrow> CreateUser eqc ctx user w =
          (None, created, snd (cache_Del ctx (UserCacheKey (ID created)) wb)))
   \<and> (ID user \<noteq> 0 \<and>
      db_Updates eqc ctx [Col_name, Col_email, Col_age, Col_status, Col_updated_at]
        (ID user) user w = (None, va)
    \<longrightarrow> UpdateUser eqc ctx user w = (None, snd (cache_Del ctx (UserCacheKey (ID user)) va)))
   \<and> calls (snd (cache_Del ctx key z)) = calls z @ [Cache_Del ctx key]
   \<and> rows (snd (cache_Del ctx key z)) = rows z
   \<and> (fst (cache_Del ctx key z) = None \<longrightarrow> cache (snd (cache_Del ctx key z)) key = None)"
proof -
  have create: "CreateUser eqc ctx user w =
          (None, created, snd (cache_Del ctx (UserCacheKey (ID created)) wb))"
    if "Name user \<noteq> []" "Email user \<noteq> []"
       "db_First_email eqc ctx (Email user) w = (Inl e, wa)"
       "db_Create eqc ctx user wa = (None, created, wb)"
    using that by (simp add: CreateUser_def Let_def split: prod.splits)
  have update: "UpdateUser eqc ctx user w = (None, snd (cache_Del ctx (UserCacheKey (ID user)) va))"
    if "ID user \<noteq> 0"
       "db_Updates eqc ctx [Col_name, Col_email, Col_age, Col_status, Col_updated_at]
          (ID user) user w = (None, va)"
    using that by (simp add: UpdateUser_def Let_def split: prod.splits)
  from create update show ?thesis
    by (simp add: cache_Del_calls cache_Del_rows cache_Del_absent)
qed

text \<open>
  An insert that succeeds while the cache is down: the deletion fails and
  \<open>CreateUser\<close> still returns no error. An update with the key in the cache: the key
  is gone when \<open>UpdateUser\<close> returns.
\<close>

theorem write_invalidates_cache_witness:
  "CreateUser (=) ctx0 bob (w0\<lparr>faults := [NoFault, NoFault, Fault ''cache down'']\<rparr>) =
     (None, bob\<lparr>ID := 2, CreatedAt := 500, UpdatedAt := 500, Status := 1\<rparr>,
      w0\<lparr>rows := [alice, bob\<lparr>ID := 2, CreatedAt := 500, UpdatedAt := 500, Status := 1\<rparr>],
         next_id := 3,
         calls := [DB_First_email ctx0 ''b@x.com'', DB_Create ctx0 bob, Cache_Del ctx0 ''user:2'']\<rparr>)
   \<and> fst (UpdateUser (=) ctx0 (alice\<lparr>Name := ''C''\<rparr>)
          (w0\<lparr>cache := [''user:1'' \<mapsto> (''{}'', 900)]\<rparr>)) = None
   \<and> cache (snd (UpdateUser (=) ctx0 (alice\<lparr>Name := ''C''\<rparr>)
          (w0\<lparr>cache := [''user:1'' \<mapsto> (''{}'', 900)]\<rparr>))) ''user:1'' = None"
proof -
  let ?w = "w0\<lparr>faults := [NoFault, NoFault, Fault ''cache down'']\<rparr>"
  let ?wa = "w0\<lparr>faults := [NoFault, Fault ''cache down''],
                calls := [DB_First_email ctx0 ''b@x.com'']\<rparr>"
  let ?bob' = "bob\<lparr>ID := 2, CreatedAt := 500, UpdatedAt := 500, Status := 1\<rparr>"
  let ?wb = "w0\<lparr>rows := [alice, ?bob'], next_id := 3, faults := [Fault ''cache down''],
                calls := [DB_First_email ctx0 ''b@x.com'', DB_Create ctx0 bob]\<rparr>"
  have a1: "Name bob \<noteq> [] \<and> Email bob \<noteq> []" by (simp add: bob_def)
  have a2: "db_First_email (=) ctx0 (Email bob) ?w = (Inl ErrRecordNotFound, ?wa)"
    by (simp add: eval_defs)
  have a3: "db_Create (=) ctx0 bob ?wa = (None, ?bob', ?wb)"
    by (simp add: eval_defs)
  have c: "CreateUser (=) ctx0 bob ?w =
             (None, ?bob', snd (cache_Del ctx0 (UserCacheKey (ID ?bob')) ?wb))"
    using write_invalidates_cache [where user = bob and eqc = "(=)" and ctx = ctx0 and w = ?w
        and e = ErrRecordNotFound and wa = ?wa and created = ?bob' and wb = ?wb] a1 a2 a3
    by blast
  let ?u = "alice\<lparr>Name := ''C''\<rparr>"
  let ?v = "w0\<lparr>cache := [''user:1'' \<mapsto> (''{}'', 900)]\<rparr>"
  let ?va = "w0\<lparr>rows := [alice\<lparr>Name := ''C'', UpdatedAt := 500\<rparr>],
                cache := [''user:1'' \<mapsto> (''{}'', 900)],
                calls := [DB_Updates ctx0 [Col_name, Col_email, Col_age, Col_status, Col_updated_at]
                            1 ?u]\<rparr>"
  have b1: "ID ?u \<noteq> 0" by (simp add: alice_def)
  have b2: "db_Updates (=) ctx0 [Col_name, Col_email, Col_age, Col_status, Col_updated_at]
              (ID ?u) ?u ?v = (None, ?va)"
    by (simp add: eval_defs)
  have u: "UpdateUser (=) ctx0 ?u ?v = (None, snd (cache_Del ctx0 (UserCacheKey (ID ?u)) ?va))"
    using write_invalidates_cache [where user = ?u and eqc = "(=)" and ctx = ctx0 and w = ?v
        and va = ?va] b1 b2
    by blast
  have d: "fst (cache_Del ctx0 (UserCacheKey (ID ?u)) ?va) = None"
    by (simp add: eval_defs)
  have k: "UserCacheKey (ID ?u) = ''user:1''" by (simp add: eval_defs)
  have gone: "cache (snd (cache_Del ctx0 (UserCacheKey (ID ?u)) ?va)) (UserCacheKey (ID ?u)) = None"
    using write_invalidates_cache [where ctx = ctx0 and key = "UserCacheKey (ID ?u)" and z = ?va] d
    by blast
  from c have "CreateUser (=) ctx0 bob ?w =
     (None, ?bob', w0\<lparr>rows := [alice, ?bob'], next_id := 3,
         calls := [DB_First_email ctx0 ''b@x.com'', DB_Create ctx0 bob, Cache_Del ctx0 ''user:2'']\<rparr>)"
    by (simp add: eval_defs)
  with u gone k show ?thesis by simp
qed

text \<open>
  C9. After an \<open>UpdateUser\<close> that returns no error, the table is the old table with,
  in each live row of that identifier, the name, email, age and status of the argument
  and the current time as update time; so the creation time of every row is what it
  was, and so are the identifier and the soft-delete marker.
\<close>

theorem UpdateUser_frame:
  assumes "UpdateUser eqc ctx user w = (None, w')"
  shows "rows w' =
           map (\<lambda>r. if live r \<and> ID r = ID user
                    then r\<lparr>Name := Name user, Email := Email user, Age := Age user,
                           Status := Status user, UpdatedAt := now w\<rparr>
                    else r) (rows w)
       \<and> map CreatedAt (rows w') = map CreatedAt (rows w)
       \<and> map ID (rows w') = map ID (rows w)
       \<and> map DeletedAt (rows w') = map DeletedAt (rows w)"
proof -
  let ?cols = "[Col_name, Col_email, Col_age, Col_status, Col_updated_at]"
  from assms have nz: "ID user \<noteq> 0"
    by (auto simp: UpdateUser_def split: if_splits)
  obtain r wa where up: "db_Updates eqc ctx ?cols (ID user) user w = (r, wa)"
    by (cases "db_Updates eqc ctx ?cols (ID user) user w")
  with assms nz have r: "r = None" and w': "w' = snd (cache_Del ctx (UserCacheKey (ID user)) wa)"
    by (auto simp: UpdateUser_def Let_def split: option.splits prod.splits)
  obtain f wi where iss: "issue (DB_Updates ctx ?cols (ID user) user) w = (f, wi)"
    by (cases "issue (DB_Updates ctx ?cols (ID user) user) w")
  note fr = issue_frame [OF iss]
  from up r iss fr have rows_a: "rows wa =
           map (\<lambda>r. if live r \<and> ID r = ID user
                    then r\<lparr>Name := Name user, Email := Email user, Age := Age user,
                           Status := Status user, UpdatedAt := now w\<rparr>
                    else r) (rows w)"
    by (auto simp: db_Updates_def Let_def split: fault.splits if_splits)
  have rows': "rows w' = rows wa" by (simp add: w' cache_Del_rows)
  show ?thesis unfolding rows' rows_a by (simp add: comp_def)
qed

text \<open>
  An update that carries a zero creation time, as a request body without that field
  does: the stored creation time stays 100.
\<close>

theorem UpdateUser_frame_witness:
  "fst (UpdateUser (=) ctx0 (alice\<lparr>Name := ''C'', CreatedAt := 0\<rparr>) w0) = None
   \<and> rows (snd (UpdateUser (=) ctx0 (alice\<lparr>Name := ''C'', CreatedAt := 0\<rparr>) w0)) =
       [alice\<lparr>Name := ''C'', UpdatedAt := 500\<rparr>]
   \<and> map CreatedAt (rows (snd (UpdateUser (=) ctx0 (alice\<lparr>Name := ''C'', CreatedAt := 0\<rparr>) w0))) =
       [100]"
proof -
  let ?u = "alice\<lparr>Name := ''C'', CreatedAt := 0\<rparr>"
  have ok: "fst (UpdateUser (=) ctx0 ?u w0) = None"
    by (simp add: UpdateUser_def eval_defs split: prod.splits)
  then have h: "UpdateUser (=) ctx0 ?u w0 = (None, snd (UpdateUser (=) ctx0 ?u w0))"
    by (cases "UpdateUser (=) ctx0 ?u w0") simp
  from UpdateUser_frame [OF h] ok show ?thesis
    by (simp add: w0_def alice_def live_def)
qed

text \<open>
  C10. When the name is empty, or the email is empty, or some row of the table, live
  or soft-deleted, has the same email, \<open>CreateUser\<close> returns an error, the table and
  the cache are what they were, and no call on the cache has been issued.
\<close>

theorem CreateUser_rejects:
  assumes "Name user = [] \<or> Email user = []
           \<or> list_ex (\<lambda>r. eqc (Email r) (Email user)) (rows w)"
  shows "fst (CreateUser eqc ctx user w) \<noteq> None
       \<and> rows (snd (snd (CreateUser eqc ctx user w))) = rows w
       \<and> cache (snd (snd (CreateUser eqc ctx user w))) = cache w
       \<and> filter is_cache_call (calls (snd (snd (CreateUser eqc ctx user w))))
           = filter is_cache_call (calls w)"
proof (cases "Name user = [] \<or> Email user = []")
  case True
  then show ?thesis by (simp add: CreateUser_def)
next
  case False
  with assms have dup: "list_ex (\<lambda>r. eqc (Email r) (Email user)) (rows w)" by blast
  obtain res wa where look: "db_First_email eqc ctx (Email user) w = (res, wa)"
    by (cases "db_First_email eqc ctx (Email user) w")
  note f1 = db_First_email_frame [OF look]
  show ?thesis
  proof (cases res)
    case (Inr existingUser)
    with False look f1 show ?thesis by (simp add: CreateUser_def)
  next
    case (Inl e)
    obtain r u wb where cr: "db_Create eqc ctx user wa = (r, u, wb)"
      by (cases "db_Create eqc ctx user wa")
    from dup f1 have "fst (db_Create eqc ctx user wa) \<noteq> None"
      by (simp add: db_Create_duplicate)
    with cr obtain err where r: "r = Some err" by auto
    note f2 = db_Create_failed [OF cr [unfolded r]]
    from False look Inl cr r f1 f2 show ?thesis by (simp add: CreateUser_def)
  qed
qed

text \<open>
  Three rejections: an empty name; an email that a live row has; an email that only a
  soft-deleted row has, where the lookup finds nothing and the unique index refuses
  the insert.
\<close>

theorem CreateUser_rejects_witness:
  "CreateUser (=) ctx0 (bob\<lparr>Name := []\<rparr>) w0 =
     (Some (Errorf msg_name_email_empty), bob\<lparr>Name := []\<rparr>, w0)
   \<and> fst (CreateUser (=) ctx0 (bob\<lparr>Email := ''a@x.com''\<rparr>) w0) =
       Some (Errorf (msg_email_exists ''a@x.com''))
   \<and> rows (snd (snd (CreateUser (=) ctx0 (bob\<lparr>Email := ''a@x.com''\<rparr>) w0))) = [alice]
   \<and> fst (CreateUser (=) ctx0 (bob\<lparr>Email := ''a@x.com''\<rparr>)
            (w0\<lparr>rows := [alice\<lparr>DeletedAt := Some 400\<rparr>]\<rparr>)) =
       Some (StoreError ''Duplicate entry for key users.idx_users_email'')
   \<and> rows (snd (snd (CreateUser (=) ctx0 (bob\<lparr>Email := ''a@x.com''\<rparr>)
            (w0\<lparr>rows := [alice\<lparr>DeletedAt := Some 400\<rparr>]\<rparr>)))) = [alice\<lparr>DeletedAt := Some 400\<rparr>]
   \<and> filter is_cache_call (calls (snd (snd (CreateUser (=) ctx0 (bob\<lparr>Email := ''a@x.com''\<rparr>)
            (w0\<lparr>rows := [alice\<lparr>DeletedAt := Some 400\<rparr>]\<rparr>))))) = []"
proof -
  let ?dup = "bob\<lparr>Email := ''a@x.com''\<rparr>"
  let ?wd = "w0\<lparr>rows := [alice\<lparr>DeletedAt := Some 400\<rparr>]\<rparr>"
  have h1: "Name (bob\<lparr>Name := []\<rparr>) = [] \<or> Email (bob\<lparr>Name := []\<rparr>) = []
            \<or> list_ex (\<lambda>r. Email r = Email (bob\<lparr>Name := []\<rparr>)) (rows w0)"
    by simp
  have h2: "Name ?dup = [] \<or> Email ?dup = [] \<or> list_ex (\<lambda>r. Email r = Email ?dup) (rows w0)"
    by (simp add: w0_def alice_def)
  have h3: "Name ?dup = [] \<or> Email ?dup = [] \<or> list_ex (\<lambda>r. Email r = Email ?dup) (rows ?wd)"
    by (simp add: w0_def alice_def)
  have e1: "CreateUser (=) ctx0 (bob\<lparr>Name := []\<rparr>) w0 =
              (Some (Errorf msg_name_email_empty), bob\<lparr>Name := []\<rparr>, w0)"
    by (simp add: CreateUser_def)
  have e2: "fst (CreateUser (=) ctx0 ?dup w0) = Some (Errorf (msg_email_exists ''a@x.com''))"
    by (simp add: CreateUser_def eval_defs)
  have e3: "fst (CreateUser (=) ctx0 ?dup ?wd) =
              Some (StoreError ''Duplicate entry for key users.idx_users_email'')"
    by (simp add: CreateUser_def eval_defs)
  from CreateUser_rejects [where eqc = "(=)", OF h1, of ctx0]
    CreateUser_rejects [where eqc = "(=)", OF h2, of ctx0]
    CreateUser_rejects [where eqc = "(=)", OF h3, of ctx0] e1 e2 e3
  show ?thesis by (simp add: w0_def)
qed



section \<open>The tracing decorator\<close>

lemma events_emit: "events (emit e t) = events t @ [e]"
  by (simp add: emit_def)

lemma starts_emit: "starts (emit e t) = (if is_start e then Suc (starts t) else starts t)"
  by (simp add: starts_def emit_def)

lemma ends_emit: "ends (emit e t) = (if is_end e then Suc (ends t) else ends t)"
  by (simp add: ends_def emit_def)

lemma set_attributes_counts:
  "set_attributes attrFunc ctx arg span t = Inr ta \<Longrightarrow> starts ta = starts t \<and> ends ta = ends t"
  by (auto simp: set_attributes_def starts_emit ends_emit
      split: option.splits sum.splits if_splits)

lemmas trace_defs =
  TraceServiceFunc_def Tracer_Start_def set_attributes_def emit_def Let_def
  ctx0_def tr0_def fn_ok_def fn_err_def fn_panic_def attrs0_def starts_def ends_def



text \<open>
  C5. One call of the wrapped function starts one span and ends that span, whatever
  \<open>fn\<close> does. Before \<open>fn\<close> is called the log has grown by the start of the new span
  \<open>span\<close> and by no other start and no end; after \<open>fn\<close> has returned, returned an
  error or panicked, the wrapper adds no start and exactly one end, and the last event
  of the log is the end of \<open>span\<close>. When the attribute function panics, \<open>fn\<close> is not
  called and the wrapper's events are the start of \<open>span\<close> and its end.
\<close>

theorem TraceServiceFunc_one_span:
  "(let (ctx, span, t1) = Tracer_Start pctx operationName tr;
        t' = snd (TraceServiceFunc operationName fn attrFunc pctx arg tr)
    in events t1 = events tr @ [Span_Start span operationName (ctx_span pctx)]
       \<and> last (events t') = Span_End span
       \<and> (case set_attributes attrFunc ctx arg span t1 of
            Inl p \<Rightarrow> events t' = events t1 @ [Span_End span]
          | Inr ta \<Rightarrow>
              starts ta = Suc (starts tr) \<and> ends ta = ends tr
              \<and> starts t' = starts (snd (fn ctx arg ta))
              \<and> ends t' = Suc (ends (snd (fn ctx arg ta)))))"
proof -
  obtain ctx span t1 where st: "Tracer_Start pctx operationName tr = (ctx, span, t1)"
    by (cases "Tracer_Start pctx operationName tr")
  then have ev1: "events t1 = events tr @ [Span_Start span operationName (ctx_span pctx)]"
    and s1: "starts t1 = Suc (starts tr)" and e1: "ends t1 = ends tr"
    by (auto simp: Tracer_Start_def Let_def events_emit starts_emit ends_emit starts_def ends_def)
  let ?t' = "snd (TraceServiceFunc operationName fn attrFunc pctx arg tr)"
  have last: "last (events ?t') = Span_End span"
    using st by (simp add: TraceServiceFunc_def Let_def events_emit split: prod.splits)
  show ?thesis
  proof (cases "set_attributes attrFunc ctx arg span t1")
    case (Inl p)
    with st have "events ?t' = events t1 @ [Span_End span]"
      by (simp add: TraceServiceFunc_def Let_def events_emit)
    with st ev1 last Inl show ?thesis by simp
  next
    case (Inr ta)
    note c = set_attributes_counts [OF Inr]
    obtain out tb where f: "fn ctx arg ta = (out, tb)"
      by (cases "fn ctx arg ta")
    from st Inr f have "starts ?t' = starts tb \<and> ends ?t' = Suc (ends tb)"
      by (auto simp: TraceServiceFunc_def Let_def starts_emit ends_emit
          split: outcome.splits option.splits)
    with st ev1 last Inr c s1 e1 f show ?thesis by simp
  qed
qed

text \<open>
  The three exits on a tracer with an empty log: the span started is span 4, child of
  span 3, and it is ended once, also when the inner function panics.
\<close>

theorem TraceServiceFunc_one_span_witness:
  "events (snd (TraceServiceFunc ''ServiceC.Calculate'' fn_panic None ctx0 5 tr0)) =
     [Span_Start 4 ''ServiceC.Calculate'' (Some 3), Span_End 4]
   \<and> events (snd (TraceServiceFunc ''ServiceC.Calculate'' fn_err None ctx0 5 tr0)) =
     [Span_Start 4 ''ServiceC.Calculate'' (Some 3),
      Span_RecordError 4 (Errorf ''upstream failed''),
      Span_SetStatus 4 Error_code ''upstream failed'', Span_End 4]
   \<and> starts (snd (TraceServiceFunc ''ServiceC.Calculate'' fn_ok (Some attrs0) ctx0 5 tr0)) = 1
   \<and> ends (snd (TraceServiceFunc ''ServiceC.Calculate'' fn_ok (Some attrs0) ctx0 5 tr0)) = 1
   \<and> last (events (snd (TraceServiceFunc ''ServiceC.Calculate'' fn_ok (Some attrs0) ctx0 5 tr0))) =
       Span_End 4"
proof -
  have p: "events (snd (TraceServiceFunc ''ServiceC.Calculate'' fn_panic None ctx0 5 tr0)) =
     [Span_Start 4 ''ServiceC.Calculate'' (Some 3), Span_End 4]"
    by (simp add: trace_defs)
  have e: "events (snd (TraceServiceFunc ''ServiceC.Calculate'' fn_err None ctx0 5 tr0)) =
     [Span_Start 4 ''ServiceC.Calculate'' (Some 3),
      Span_RecordError 4 (Errorf ''upstream failed''),
      Span_SetStatus 4 Error_code ''upstream failed'', Span_End 4]"
    by (simp add: trace_defs)
  have f: "snd (fn_ok c 5 t) = t" for c t
    by (simp add: fn_ok_def)
  from TraceServiceFunc_one_span [where pctx = ctx0 and operationName = "''ServiceC.Calculate''"
      and tr = tr0 and fn = fn_ok and attrFunc = "Some attrs0" and arg = 5] f
  have "starts (snd (TraceServiceFunc ''ServiceC.Calculate'' fn_ok (Some attrs0) ctx0 5 tr0)) = 1
   \<and> ends (snd (TraceServiceFunc ''ServiceC.Calculate'' fn_ok (Some attrs0) ctx0 5 tr0)) = 1
   \<and> last (events (snd (TraceServiceFunc ''ServiceC.Calculate'' fn_ok (Some attrs0) ctx0 5 tr0))) =
       Span_End 4"
    by (simp add: Tracer_Start_def set_attributes_def attrs0_def Let_def emit_def
        starts_def ends_def tr0_def)
  with p e show ?thesis by simp
qed


end
